theory Spec2Isabelle
  imports Main
begin

section \<open>Values exchanged with the page and the database\<close>

text \<open>
  The recorder moves JSON-shaped Python values around: an action is a \<open>dict\<close>, a drained
  batch is a \<open>list\<close> of actions, and the \<open>page_actions\<close> JSONB column holds \<open>None\<close>,
  a legacy flat \<open>list\<close>, or a \<open>dict\<close> from session key to action list. A \<open>dict\<close> is an
  association list in insertion order; \<open>map_of\<close> reads it, so two dicts are the same
  mapping when their \<open>map_of\<close> agree (Python's \<open>==\<close> on dicts ignores order too).
\<close>

datatype json =
    JNull
  | JBool bool
  | JNum int
  | JStr string
  | JList "json list"
  | JDict "(string \<times> json) list"

text \<open>\<open>d[k] = v\<close>: an existing key keeps its position, a new key goes last.\<close>

fun dict_set :: "string \<Rightarrow> json \<Rightarrow> (string \<times> json) list \<Rightarrow> (string \<times> json) list" where
  "dict_set k v [] = [(k, v)]"
| "dict_set k v (p # d) = (if fst p = k then (k, v) # d else p # dict_set k v d)"

text \<open>Python truthiness of a value (\<open>if x:\<close>, \<open>x or y\<close>).\<close>

fun truthy :: "json \<Rightarrow> bool" where
  "truthy JNull = False"
| "truthy (JBool b) = b"
| "truthy (JNum n) = (n \<noteq> 0)"
| "truthy (JStr s) = (s \<noteq> [])"
| "truthy (JList xs) = (xs \<noteq> [])"
| "truthy (JDict d) = (d \<noteq> [])"

section \<open>database/vector\_db.py\<close>

text \<open>
  One row of \<open>page_embeddings\<close>, keyed by \<open>url\<close>. The \<open>embedding\<close> and \<open>timestamp\<close>
  columns are floating point and play no part below; they are left out. A SQL NULL in
  \<open>page_actions\<close> reaches Python as \<open>None\<close>, that is \<open>JNull\<close>.
\<close>

record row =
  content :: "string option"
  content_type :: string
  title :: string
  is_alert :: bool
  session_id :: "string option"
  page_actions :: json

text \<open>
  The module's globals: \<open>PG_CONN\<close> (with its cursor) is either established or not,
  \<open>reachable\<close> says whether \<open>psycopg2.connect\<close> succeeds when it is tried, and
  \<open>page_embeddings\<close> is the table. Statements on an established connection are taken to
  succeed.
\<close>

record pg =
  PG_CONN :: bool
  reachable :: bool
  page_embeddings :: "string \<rightharpoonup> row"

definition connect_to_db :: "pg \<Rightarrow> bool \<times> pg" where
  "connect_to_db db = (if reachable db then (True, db\<lparr>PG_CONN := True\<rparr>) else (False, db))"

text \<open>\<open>if not PG_CONN or not PG_CURSOR: if not connect_to_db(): return False\<close>\<close>

definition ensure_connection :: "pg \<Rightarrow> bool \<times> pg" where
  "ensure_connection db = (if PG_CONN db then (True, db) else connect_to_db db)"

text \<open>\<open>session_key = session_id or "session_unknown"\<close>\<close>

definition session_key_of :: "string option \<Rightarrow> string" where
  "session_key_of sid =
     (case sid of
        None \<Rightarrow> ''session_unknown''
      | Some s \<Rightarrow> (if s = [] then ''session_unknown'' else s))"

text \<open>
  The value of \<open>new_actions_obj\<close> when the row exists: the four-way test on the stored
  value, in the source's order. \<open>extend\<close> appends in place, so the key keeps its position.
\<close>

definition new_actions_obj :: "json \<Rightarrow> string \<Rightarrow> json list \<Rightarrow> json" where
  "new_actions_obj existing session_key actions =
     (case existing of
        JNull \<Rightarrow> JDict [(session_key, JList actions)]
      | JList old \<Rightarrow>
          JDict (dict_set session_key (JList actions) [(''legacy_default'', JList old)])
      | JDict d \<Rightarrow>
          (case map_of d session_key of
             Some (JList cur) \<Rightarrow> JDict (dict_set session_key (JList (cur @ actions)) d)
           | _ \<Rightarrow> JDict (dict_set session_key (JList actions) d))
      | _ \<Rightarrow> JDict [(session_key, JList actions)])"

text \<open>\<open>session_id = COALESCE(%s, session_id)\<close>\<close>

definition coalesce :: "string option \<Rightarrow> string option \<Rightarrow> string option" where
  "coalesce sid old = (case sid of None \<Rightarrow> old | Some s \<Rightarrow> Some s)"

definition update_page_actions :: "pg \<Rightarrow> string \<Rightarrow> json \<Rightarrow> string option \<Rightarrow> bool \<times> pg" where
  "update_page_actions db0 url actions sid =
     (case ensure_connection db0 of
        (False, db) \<Rightarrow> (False, db)
      | (True, db) \<Rightarrow>
          (case actions of
             JList acts \<Rightarrow>
               (if url = [] then (True, db)
                else if acts = [] then (True, db)
                else
                  (case page_embeddings db url of
                     Some r \<Rightarrow>
                       (True, db\<lparr>page_embeddings := (page_embeddings db)(url \<mapsto>
                          r\<lparr>session_id := coalesce sid (session_id r),
                            page_actions :=
                              new_actions_obj (page_actions r) (session_key_of sid) acts\<rparr>)\<rparr>)
                   | None \<Rightarrow>
                       (True, db\<lparr>page_embeddings := (page_embeddings db)(url \<mapsto>
                          \<lparr>content = None, content_type = ''html'', title = [],
                           is_alert = False, session_id = sid,
                           page_actions = JDict [(session_key_of sid, JList acts)]\<rparr>)\<rparr>)))
           | _ \<Rightarrow> (True, db)))"

text \<open>What is stored for \<open>url\<close> under a session key, read back from the table.\<close>

definition lookup_session :: "json \<Rightarrow> string \<Rightarrow> json option" where
  "lookup_session v k = (case v of JDict d \<Rightarrow> map_of d k | _ \<Rightarrow> None)"

definition stored_actions :: "pg \<Rightarrow> string \<Rightarrow> string \<Rightarrow> json option" where
  "stored_actions db url k =
     (case page_embeddings db url of
        None \<Rightarrow> None
      | Some r \<Rightarrow> lookup_session (page_actions r) k)"

text \<open>\<open>metadata.get(key, default)\<close> on the metadata dict.\<close>

definition dict_get :: "(string \<times> json) list \<Rightarrow> string \<Rightarrow> json \<Rightarrow> json" where
  "dict_get d k dflt = (case map_of d k of None \<Rightarrow> dflt | Some v \<Rightarrow> v)"

text \<open>The text a value leaves in a TEXT column; only strings occur as titles.\<close>

definition text_of :: "json \<Rightarrow> string" where
  "text_of v = (case v of JStr s \<Rightarrow> s | _ \<Rightarrow> [])"

text \<open>
  \<open>store_in_pgvector\<close>: the upsert of a page. \<open>html_text\<close> stands for BeautifulSoup's
  \<open>get_text().strip()\<close>, and \<open>current\<close> for \<open>history_manager.current_session\<close> (its id,
  or \<open>None\<close> when no recording is open); neither module is part of the sources. The
  \<open>ON CONFLICT\<close> branch sets every column but \<open>page_actions\<close>.
\<close>

definition store_in_pgvector ::
  "(string \<Rightarrow> string) \<Rightarrow> string option \<Rightarrow> pg \<Rightarrow> string \<Rightarrow> string \<Rightarrow>
     (string \<times> json) list \<Rightarrow> string option \<Rightarrow> bool \<times> pg" where
  "store_in_pgvector html_text current db0 url html metadata sid =
     (case ensure_connection db0 of
        (False, db) \<Rightarrow> (False, db)
      | (True, db) \<Rightarrow>
          (let alert_flag = (if metadata = [] then False
                             else truthy (dict_get metadata ''is_alert'' (JBool False)));
               text_content = (if html = [] then ''No content available''
                               else if alert_flag then html else html_text html);
               ctype = (if html = [] then ''unknown''
                        else if alert_flag then ''alert'' else ''html'');
               ttl = (if metadata = [] then []
                      else text_of (dict_get metadata ''title'' (JStr [])));
               sid' = (case sid of
                         None \<Rightarrow> (case current of None \<Rightarrow> sid | Some c \<Rightarrow> Some c)
                       | Some s \<Rightarrow>
                           (if s = [] then (case current of None \<Rightarrow> sid | Some c \<Rightarrow> Some c)
                            else sid))
           in (True, db\<lparr>page_embeddings := (page_embeddings db)(url \<mapsto>
                 (case page_embeddings db url of
                    None \<Rightarrow>
                      \<lparr>content = Some text_content, content_type = ctype, title = ttl,
                       is_alert = alert_flag, session_id = sid', page_actions = JNull\<rparr>
                  | Some r \<Rightarrow>
                      r\<lparr>content := Some text_content, content_type := ctype, title := ttl,
                        is_alert := alert_flag, session_id := sid'\<rparr>))\<rparr>)))"

section \<open>browser/controller.py: the script injected into each page\<close>

text \<open>
  What the script reads of a DOM element. \<open>getAttribute\<close> gives \<open>null\<close> (\<open>None\<close>) for a
  missing attribute; the properties \<open>type\<close>, \<open>id\<close>, \<open>value\<close>, \<open>innerText\<close> are the empty
  string when the element has none. \<open>xpath\<close> and \<open>label_text\<close> are what \<open>getXPath\<close> and
  \<open>getLabelText\<close> return for the element: they walk the document and are taken as given.
  Strings are bytes, and \<open>toLowerCase\<close> is modelled on ASCII letters.
\<close>

record element =
  tagName :: string
  el_type :: string
  el_id :: string
  attr_name :: "string option"
  attr_placeholder :: "string option"
  attr_autocomplete :: "string option"
  attr_aria_label :: "string option"
  attr_href :: "string option"
  el_value :: string
  el_checked :: bool
  innerText :: string
  selected_text :: "string option"
  xpath :: string
  label_text :: string

text \<open>The form \<open>target.form || target.closest('form')\<close> resolves to, with its controls.\<close>

record form =
  form_attr_name :: "string option"
  form_attr_id :: "string option"
  form_attr_action :: "string option"
  form_attr_method :: "string option"
  form_xpath :: string
  elements :: "element list"

record event =
  key :: "string option"
  pageX :: "int option"
  pageY :: "int option"
  time_iso :: string

datatype ev_type = Click | Change | Input | Submit | Keydown

text \<open>
  The page as the script sees it: \<open>window.location.href\<close>, \<open>document.title\<close>, the rendered
  source, and the three \<open>window.__flow...\<close> variables (\<open>None\<close> is \<open>undefined\<close>).
\<close>

record page =
  page_url :: string
  page_title :: string
  page_source :: string
  flowListenersInstalled :: bool
  flowActionQueue :: "json list option"
  flowActionCounter :: nat

definition lower_char :: "char \<Rightarrow> char" where
  "lower_char c =
     (let n = (of_char c :: nat) in if 65 \<le> n \<and> n \<le> 90 then char_of (n + 32) else c)"

definition toLowerCase :: "string \<Rightarrow> string" where
  "toLowerCase s = map lower_char s"

definition toUpperCase :: "string \<Rightarrow> string" where
  "toUpperCase s =
     map (\<lambda>c. let n = (of_char c :: nat) in if 97 \<le> n \<and> n \<le> 122 then char_of (n - 32) else c) s"

fun startsWith :: "string \<Rightarrow> string \<Rightarrow> bool" where
  "startsWith s [] = True"
| "startsWith [] (k # ks) = False"
| "startsWith (c # cs) (k # ks) = (if c = k then startsWith cs ks else False)"

fun js_includes :: "string \<Rightarrow> string \<Rightarrow> bool" where
  "js_includes [] k = (k = [])"
| "js_includes (c # cs) k = (if startsWith (c # cs) k then True else js_includes cs k)"

definition is_space :: "char \<Rightarrow> bool" where
  "is_space c = (c = CHR '' '' \<or> c = CHR 0x09 \<or> c = CHR 0x0A \<or> c = CHR 0x0D)"

definition trim :: "string \<Rightarrow> string" where
  "trim s = rev (dropWhile is_space (rev (dropWhile is_space s)))"

text \<open>\<open>x || ''\<close> for an attribute that may be \<open>null\<close>.\<close>

definition or_empty :: "string option \<Rightarrow> string" where
  "or_empty a = (case a of None \<Rightarrow> [] | Some s \<Rightarrow> s)"

definition needles :: "string list" where
  "needles = [''password'', ''pass'', ''pwd'', ''secret'', ''token'', ''ssn'', ''sin'',
              ''credit'', ''card'', ''cvc'', ''cvv'', ''pin'']"

definition isSensitive :: "element \<Rightarrow> bool" where
  "isSensitive el =
     (let n = toLowerCase (or_empty (attr_name el));
          i = toLowerCase (el_id el);
          t = toLowerCase (el_type el);
          ph = toLowerCase (or_empty (attr_placeholder el));
          ac = toLowerCase (or_empty (attr_autocomplete el));
          label = toLowerCase (or_empty (attr_aria_label el));
          haystacks = [n, i, ph, ac, label, t]
      in if t = ''password'' then True
         else list_ex (\<lambda>h. list_ex (\<lambda>k. js_includes h k) needles) haystacks)"

text \<open>\<open>((target.type || target.tagName) || '').toLowerCase()\<close>\<close>

definition fieldType_of :: "element \<Rightarrow> string" where
  "fieldType_of el = toLowerCase (if el_type el = [] then tagName el else el_type el)"

definition tName_of :: "element \<Rightarrow> string" where
  "tName_of el = toLowerCase (tagName el)"

text \<open>One entry of \<open>fields\<close>, built in the \<open>forEach\<close> of the \<open>submit\<close> branch.\<close>

definition submit_field :: "element \<Rightarrow> json" where
  "submit_field el =
     (let elType = fieldType_of el;
          sens = isSensitive el;
          v = (if elType = ''checkbox'' then JBool (el_checked el)
               else if elType = ''radio'' then JBool (el_checked el)
               else if tName_of el = ''select'' then JStr (el_value el)
               else JStr (if sens then ''***'' else el_value el))
      in JDict [(''name'', JStr (or_empty (attr_name el))),
                (''id'', JStr (el_id el)),
                (''type'', JStr elType),
                (''value'', v),
                (''sensitive'', JBool sens)])"

text \<open>\<open>dataObj\<close>, the payload of \<open>buildAction\<close>, key by key in the order the script sets them.\<close>

definition dataObj :: "ev_type \<Rightarrow> element \<Rightarrow> form option \<Rightarrow> event \<Rightarrow> (string \<times> json) list" where
  "dataObj ty target frm evt =
     (let fieldType = fieldType_of target;
          sensitive = isSensitive target;
          tName = tName_of target;
          checkish = (if fieldType = ''checkbox'' then True else fieldType = ''radio'')
      in case ty of
           Click \<Rightarrow>
             (let d1 = (if tName = ''a'' then [(''href'', JStr (or_empty (attr_href target)))] else []);
                  buttonish = (if tName = ''button'' then True
                               else if tName = ''input''
                                    then List.member [''button'', ''submit'', ''reset''] fieldType
                                    else False)
              in if buttonish
                 then dict_set ''text''
                        (JStr (trim (if innerText target = [] then el_value target
                                     else innerText target))) d1
                 else d1)
         | Submit \<Rightarrow>
             [(''fields'', JList (case frm of None \<Rightarrow> [] | Some f \<Rightarrow> map submit_field (elements f)))]
         | Keydown \<Rightarrow> (if key evt = Some ''Enter'' then [(''key'', JStr ''Enter'')] else [])
         | _ \<Rightarrow>
             (let d1 = (if checkish then [(''checked'', JBool (el_checked target))] else []);
                  d2 = (if tName = ''select''
                        then dict_set ''text'' (JStr (or_empty (selected_text target)))
                               (dict_set ''value'' (JStr (el_value target)) d1)
                        else if checkish then d1
                        else dict_set ''value''
                               (JStr (if sensitive then ''***'' else el_value target)) d1)
              in dict_set ''sensitive'' (JBool sensitive) d2))"

definition opt_num :: "int option \<Rightarrow> json" where
  "opt_num x = (case x of None \<Rightarrow> JNull | Some n \<Rightarrow> JNum n)"

definition type_name :: "ev_type \<Rightarrow> event \<Rightarrow> string" where
  "type_name ty evt =
     (case ty of
        Click \<Rightarrow> ''click'' | Change \<Rightarrow> ''change'' | Input \<Rightarrow> ''input'' | Submit \<Rightarrow> ''submit''
      | Keydown \<Rightarrow> (if key evt = Some ''Enter'' then ''keydown_enter'' else ''keydown''))"

text \<open>
  \<open>buildAction\<close>: the counter is bumped, the action is assembled and pushed. A queue that
  is \<open>undefined\<close> makes \<open>push\<close> throw after the counter was bumped, and the \<open>catch\<close>
  swallows it.
\<close>

definition buildAction :: "ev_type \<Rightarrow> element \<Rightarrow> form option \<Rightarrow> event \<Rightarrow> page \<Rightarrow> page" where
  "buildAction ty target frm evt p =
     (let n = Suc (flowActionCounter p);
          action = JDict
            [(''action_id'', JNum (int n)),
             (''type'', JStr (type_name ty evt)),
             (''url'', JStr (page_url p)),
             (''title'', JStr (page_title p)),
             (''field_xpath'', JStr (xpath target)),
             (''field_css'', JStr []),
             (''field_label'', JStr (label_text target)),
             (''field_name'', JStr (or_empty (attr_name target))),
             (''field_id'', JStr (el_id target)),
             (''field_type'', JStr (fieldType_of target)),
             (''form_name'', JStr (case frm of None \<Rightarrow> [] | Some f \<Rightarrow> or_empty (form_attr_name f))),
             (''form_id'', JStr (case frm of None \<Rightarrow> [] | Some f \<Rightarrow> or_empty (form_attr_id f))),
             (''form_action'', JStr (case frm of None \<Rightarrow> [] | Some f \<Rightarrow> or_empty (form_attr_action f))),
             (''form_method'', JStr (case frm of None \<Rightarrow> []
                | Some f \<Rightarrow> toUpperCase (case form_attr_method f of None \<Rightarrow> ''GET''
                                          | Some m \<Rightarrow> (if m = [] then ''GET'' else m)))),
             (''form_xpath'', JStr (case frm of None \<Rightarrow> [] | Some f \<Rightarrow> form_xpath f)),
             (''data'', JDict (dataObj ty target frm evt)),
             (''timestamp_utc'', JStr (time_iso evt)),
             (''page_x'', opt_num (pageX evt)),
             (''page_y'', opt_num (pageY evt))]
      in case flowActionQueue p of
           None \<Rightarrow> p\<lparr>flowActionCounter := n\<rparr>
         | Some q \<Rightarrow> p\<lparr>flowActionCounter := n, flowActionQueue := Some (q @ [action])\<rparr>)"

text \<open>
  The five capture-phase listeners: which events reach \<open>buildAction\<close>. Nothing is
  registered before the script has run.
\<close>

definition dispatch :: "ev_type \<Rightarrow> element \<Rightarrow> form option \<Rightarrow> event \<Rightarrow> page \<Rightarrow> page" where
  "dispatch ty target frm evt p =
     (if flowListenersInstalled p then
        (case ty of
           Click \<Rightarrow> buildAction Click target frm evt p
         | Change \<Rightarrow>
             (if List.member [''input'', ''textarea'', ''select''] (tName_of target)
              then buildAction Change target frm evt p else p)
         | Input \<Rightarrow>
             (if toLowerCase (el_type target) = ''password'' then buildAction Input target frm evt p
              else if tName_of target = ''textarea'' then buildAction Input target frm evt p
              else if List.member [''email'', ''number'', ''tel'', ''search'', ''text'', ''url'']
                        (toLowerCase (el_type target))
              then buildAction Input target frm evt p
              else p)
         | Keydown \<Rightarrow> (if key evt = Some ''Enter'' then buildAction Keydown target frm evt p else p)
         | Submit \<Rightarrow> buildAction Submit target frm evt p)
      else p)"

text \<open>
  Both scripts handed to \<open>execute_script\<close> have the form \<open>(function() { ... })();\<close>: a
  function expression that is called at once. \<open>execute_script\<close> runs its argument as the
  body of a function and gives back what that body returns. The body here is the one
  expression statement: the call is made, its value is dropped, and with no \<open>return\<close> of
  its own the script yields \<open>undefined\<close>, which reaches Python as \<open>None\<close>.
\<close>

text \<open>The function of the installation script, and the script.\<close>

definition install_iife :: "page \<Rightarrow> string \<times> page" where
  "install_iife p =
     (if flowListenersInstalled p then (''already'', p)
      else (''installed'',
            p\<lparr>flowListenersInstalled := True, flowActionQueue := Some [], flowActionCounter := 0\<rparr>))"

definition install_script :: "page \<Rightarrow> string option \<times> page" where
  "install_script p = (None, snd (install_iife p))"

text \<open>
  The function of the drain script: \<open>var q = (window.__flowActionQueue || []);
  window.__flowActionQueue = []; return q;\<close>, and the script, which drops \<open>q\<close>.
\<close>

definition drain_iife :: "page \<Rightarrow> json list \<times> page" where
  "drain_iife p =
     ((case flowActionQueue p of None \<Rightarrow> [] | Some q \<Rightarrow> q), p\<lparr>flowActionQueue := Some []\<rparr>)"

definition drain_script :: "page \<Rightarrow> json list option \<times> page" where
  "drain_script p = (None, snd (drain_iife p))"

section \<open>browser/controller.py: the capture loop\<close>

text \<open>
  The WebDriver handle as the controller uses it: liveness, the window handles in the
  driver's order, the active one, the page behind each handle, the text of a pending
  modal dialog, and how each dialog so far was closed. Apart from what an open dialog
  does to a command (below), driver calls on a live browser are taken to succeed.
\<close>

datatype dialog_outcome = Accepted | Dismissed

record webdriver =
  alive :: bool
  window_handles :: "string list"
  current_window_handle :: string
  pages :: "string \<Rightarrow> page"
  alert :: "string option"
  closed_dialogs :: "(string \<times> dialog_outcome) list"

text \<open>
  What the loop takes from outside: BeautifulSoup's text extraction; \<open>extract_metadata\<close>,
  which is BeautifulSoup parsing from end to end and is taken as a function from the markup
  to the metadata dict; Python's \<open>hash\<close>; and \<open>store_in_neo4j\<close> of
  \<open>database/graph_db.py\<close>, which is not among the sources and acts on a graph store
  \<open>'g\<close> of its own. Status notices (\<open>signals\<close>) and console output are left out.
\<close>

record 'g env =
  html_text :: "string \<Rightarrow> string"
  extract_metadata :: "string \<Rightarrow> (string \<times> json) list"
  hash :: "string \<Rightarrow> int"
  store_in_neo4j ::
    "string \<Rightarrow> (string \<times> json) list \<Rightarrow> string option \<Rightarrow> string option \<Rightarrow> 'g \<Rightarrow> 'g"

text \<open>
  The module's globals, together with the two stores they write to and
  \<open>history_manager.current_session\<close> (the id of the open recording, if any).
\<close>

record 'g state =
  browser :: "webdriver option"
  stop_capturing :: bool
  all_windows :: "string set"
  flows :: "string \<rightharpoonup> ((string \<times> json) list \<times> string)"
  page_action_logs :: "string \<rightharpoonup> json list"
  vector_db :: pg
  graph_db :: 'g
  current_session :: "string option"

record tab_data =
  td_url :: string
  td_content :: string
  td_is_new :: bool
  td_events :: "json list"

text \<open>The locals of \<open>capture_web_actions\<close> that live across cycles.\<close>

record locals =
  last_url :: string
  processed_urls :: "string \<rightharpoonup> int"

datatype outcome = Break | Continue | Slept_half | Slept_one

definition is_browser_alive :: "'g state \<Rightarrow> bool" where
  "is_browser_alive st = (case browser st of None \<Rightarrow> False | Some b \<Rightarrow> alive b)"

definition current_page :: "webdriver \<Rightarrow> page" where
  "current_page b = pages b (current_window_handle b)"

text \<open>\<open>browser.execute_script\<close> on the active window: run a script, keep its result.\<close>

definition execute_script :: "(page \<Rightarrow> 'r \<times> page) \<Rightarrow> webdriver \<Rightarrow> 'r \<times> webdriver" where
  "execute_script script b =
     (case script (current_page b) of
        (r, p) \<Rightarrow> (r, b\<lparr>pages := (pages b)(current_window_handle b := p)\<rparr>))"

definition inject_action_listeners :: "'g state \<Rightarrow> 'g state" where
  "inject_action_listeners st =
     (if is_browser_alive st then
        (case browser st of
           None \<Rightarrow> st
         | Some b \<Rightarrow> st\<lparr>browser := Some (snd (execute_script install_script b))\<rparr>)
      else st)"

text \<open>\<open>return browser.execute_script(...) or []\<close>\<close>

definition drain_action_queue :: "'g state \<Rightarrow> json list \<times> 'g state" where
  "drain_action_queue st =
     (if is_browser_alive st then
        (case browser st of
           None \<Rightarrow> ([], st)
         | Some b \<Rightarrow>
             (case execute_script drain_script b of
                (r, b') \<Rightarrow>
                  ((case r of None \<Rightarrow> [] | Some q \<Rightarrow> q), st\<lparr>browser := Some b'\<rparr>)))
      else ([], st))"

text \<open>
  \<open>process_new_actions\<close>: the batch is appended to the buffer kept for the URL, and the
  buffer as a whole goes to \<open>update_page_actions\<close>, with no session id.
\<close>

definition process_new_actions :: "'g state \<Rightarrow> string \<Rightarrow> json list \<Rightarrow> 'g state" where
  "process_new_actions st tab_url actions =
     (if actions = [] then st
      else
        (let url_actions = (case page_action_logs st tab_url of None \<Rightarrow> [] | Some b \<Rightarrow> b) @ actions
         in st\<lparr>page_action_logs := (page_action_logs st)(tab_url \<mapsto> url_actions),
               vector_db := snd (update_page_actions (vector_db st) tab_url (JList url_actions) None)\<rparr>))"

definition record_action ::
  "'g env \<Rightarrow> 'g state \<Rightarrow> string \<Rightarrow> (string \<times> json) list \<Rightarrow> string \<Rightarrow> string option \<Rightarrow> 'g state" where
  "record_action E st url metadata html referrer =
     st\<lparr>flows := (case flows st url of None \<Rightarrow> (flows st)(url \<mapsto> (metadata, html))
                   | Some f \<Rightarrow> flows st),
        graph_db := store_in_neo4j E url metadata referrer (current_session st) (graph_db st),
        vector_db := snd (store_in_pgvector (html_text E) (current_session st) (vector_db st)
                            url html metadata (current_session st))\<rparr>"

text \<open>Decimal digits of a number, as an f-string prints \<open>int(time.time())\<close>.\<close>

fun str_nat :: "nat \<Rightarrow> string" where
  "str_nat n = (if n < 10 then [char_of (48 + n)] else str_nat (n div 10) @ [char_of (48 + n mod 10)])"

declare str_nat.simps [simp del]

definition alert_metadata :: "string \<Rightarrow> string \<Rightarrow> (string \<times> json) list" where
  "alert_metadata url alert_text =
     [(''title'', JStr (''Alert on '' @ url)),
      (''meta_tags'', JDict []),
      (''headings'', JList [JStr ''Alert'']),
      (''fields'', JList []),
      (''actions'', JList [JStr ''OK'', JStr ''Cancel'']),
      (''forms'', JList []),
      (''links'', JDict []),
      (''summary'', JStr alert_text),
      (''is_alert'', JBool True)]"

definition alert_content :: "string \<Rightarrow> string \<Rightarrow> string" where
  "alert_content url alert_text =
     ''<html><body><h1>Alert on '' @ url @ ''</h1><p>'' @ alert_text @ ''</p></body></html>''"

definition alert_url :: "string \<Rightarrow> nat \<Rightarrow> string" where
  "alert_url url now = url @ ''#alert-'' @ str_nat now"

text \<open>
  A dialog that is open when a command other than the alert commands arrives is an
  unhandled prompt. \<open>start_browser\<close> sets no \<open>unhandledPromptBehavior\<close>, so the driver's
  default applies, dismiss and notify: the driver dismisses the dialog and the command
  fails with \<open>UnexpectedAlertPresentException\<close>.
\<close>

definition dismiss_and_notify :: "webdriver \<Rightarrow> webdriver" where
  "dismiss_and_notify b =
     (case alert b of
        None \<Rightarrow> b
      | Some t \<Rightarrow> b\<lparr>alert := None, closed_dialogs := closed_dialogs b @ [(t, Dismissed)]\<rparr>)"

text \<open>\<open>browser.current_url\<close>; \<open>None\<close> is the exception.\<close>

definition get_current_url :: "webdriver \<Rightarrow> string option \<times> webdriver" where
  "get_current_url b =
     (case alert b of
        None \<Rightarrow> (Some (page_url (current_page b)), b)
      | Some t \<Rightarrow> (None, dismiss_and_notify b))"

text \<open>\<open>alert.accept()\<close>; \<open>None\<close> is \<open>NoAlertPresentException\<close>.\<close>

definition alert_accept :: "webdriver \<Rightarrow> webdriver option" where
  "alert_accept b =
     (case alert b of
        None \<Rightarrow> None
      | Some t \<Rightarrow> Some (b\<lparr>alert := None, closed_dialogs := closed_dialogs b @ [(t, Accepted)]\<rparr>))"

text \<open>
  \<open>check_alerts\<close>, at clock reading \<open>now\<close> (whole seconds). With no dialog the bounded wait
  times out and the bare \<open>except\<close> returns \<open>False\<close>; so does a missing browser. With a
  dialog, \<open>alert.text\<close> is read, and then \<open>browser.current_url\<close> is asked for while the
  dialog is still open; every exception from there on ends in the bare \<open>except\<close>.
\<close>

definition check_alerts :: "'g env \<Rightarrow> nat \<Rightarrow> 'g state \<Rightarrow> bool \<times> 'g state" where
  "check_alerts E now st =
     (case browser st of
        None \<Rightarrow> (False, st)
      | Some b \<Rightarrow>
          (case alert b of
             None \<Rightarrow> (False, st)
           | Some alert_text \<Rightarrow>
               (case get_current_url b of
                  (None, b1) \<Rightarrow> (False, st\<lparr>browser := Some b1\<rparr>)
                | (Some url, b1) \<Rightarrow>
                    (let st1 = record_action E (st\<lparr>browser := Some b1\<rparr>) (alert_url url now)
                                 (alert_metadata url alert_text)
                                 (alert_content url alert_text) (Some url)
                     in case alert_accept b1 of
                          None \<Rightarrow> (False, st1)
                        | Some b2 \<Rightarrow> (True, st1\<lparr>browser := Some b2\<rparr>)))))"

text \<open>
  The body of the \<open>for handle in browser.window_handles\<close> loop of \<open>capture_all_tabs\<close>.
  The poll runs after \<open>check_alerts\<close>, which leaves no dialog open; it is modelled for
  that case.
\<close>

definition capture_tab ::
  "string set \<Rightarrow> 'g state \<times> tab_data list \<Rightarrow> string \<Rightarrow> 'g state \<times> tab_data list" where
  "capture_tab new_handles acc handle =
     (case acc of (st, results) \<Rightarrow>
        (case browser st of
           None \<Rightarrow> (st, results)
         | Some b \<Rightarrow>
             (let st1 = st\<lparr>browser := Some (b\<lparr>current_window_handle := handle\<rparr>)\<rparr>;
                  st2 = inject_action_listeners st1
              in case drain_action_queue st2 of
                   (pending_actions, st3) \<Rightarrow>
                     (case browser st3 of
                        None \<Rightarrow> (st3, results)
                      | Some b3 \<Rightarrow>
                          (let url = page_url (current_page b3);
                               html_content = page_source (current_page b3)
                           in if url = ''about:blank''
                              then (if pending_actions = [] then (st3, results)
                                    else (process_new_actions st3 url pending_actions, results))
                              else (st3, results @
                                      [\<lparr>td_url = url, td_content = html_content,
                                        td_is_new = (handle \<in> new_handles),
                                        td_events = pending_actions\<rparr>]))))))"

text \<open>
  \<open>capture_all_tabs\<close>; \<open>None\<close> stands for the exception a missing browser raises before
  the \<open>try\<close>. The \<open>finally\<close> switches back to the window that was active.
\<close>

definition capture_all_tabs :: "'g state \<Rightarrow> ((tab_data list \<times> string) \<times> 'g state) option" where
  "capture_all_tabs st =
     (case browser st of
        None \<Rightarrow> None
      | Some b \<Rightarrow>
          (let current_handle = current_window_handle b;
               current_url = page_url (current_page b);
               current_handles = set (window_handles b);
               new_handles = current_handles - all_windows st;
               st0 = st\<lparr>all_windows := current_handles\<rparr>
           in case foldl (capture_tab new_handles) (st0, []) (window_handles b) of
                (st1, results) \<Rightarrow>
                  Some ((results, current_url),
                        st1\<lparr>browser := (case browser st1 of None \<Rightarrow> None
                                | Some b1 \<Rightarrow> Some (b1\<lparr>current_window_handle := current_handle\<rparr>))\<rparr>)))"

text \<open>The body of \<open>for tab_data in tabs_data\<close> in \<open>capture_web_actions\<close>.\<close>

definition process_tab ::
  "'g env \<Rightarrow> 'g state \<times> locals \<Rightarrow> tab_data \<Rightarrow> 'g state \<times> locals" where
  "process_tab E acc td =
     (case acc of (st, loc) \<Rightarrow>
        (let tab_url = td_url td;
             html_content = td_content td;
             content_hash = hash E html_content;
             st1 = (if td_events td = [] then st else process_new_actions st tab_url (td_events td));
             changed = (case processed_urls loc tab_url of None \<Rightarrow> True | Some h \<Rightarrow> h \<noteq> content_hash)
         in if changed then
              (let metadata = extract_metadata E html_content;
                   referrer = (if td_is_new td then Some (last_url loc)
                               else (case processed_urls loc tab_url of None \<Rightarrow> None
                                     | Some h \<Rightarrow> Some tab_url));
                   st2 = record_action E st1 tab_url metadata html_content referrer;
                   st3 = inject_action_listeners st2
               in (st3, loc\<lparr>processed_urls := (processed_urls loc)(tab_url \<mapsto> content_hash)\<rparr>))
            else (st1, loc)))"

text \<open>
  One pass through the body of \<open>while not stop_capturing\<close>: the liveness check, the alert
  check with its \<open>continue\<close>, then the poll of all tabs and the half-second pause. The
  \<open>except\<close> of the poll sleeps a second and leaves the loop if the browser is gone.
\<close>

definition capture_cycle ::
  "'g env \<Rightarrow> nat \<Rightarrow> 'g state \<Rightarrow> locals \<Rightarrow> outcome \<times> 'g state \<times> locals" where
  "capture_cycle E now st loc =
     (if is_browser_alive st then
        (case check_alerts E now st of
           (True, st1) \<Rightarrow> (Continue, st1, loc)
         | (False, st1) \<Rightarrow>
             (case capture_all_tabs st1 of
                None \<Rightarrow> ((if is_browser_alive st1 then Slept_one else Break), st1, loc)
              | Some ((tabs_data, current_url), st2) \<Rightarrow>
                  (case foldl (process_tab E) (st2, loc) tabs_data of
                     (st3, loc3) \<Rightarrow> (Slept_half, st3, loc3\<lparr>last_url := current_url\<rparr>))))
      else (Break, st, loc))"

text \<open>The actions waiting in the queue of the active page.\<close>

definition queued :: "'g state \<Rightarrow> json list" where
  "queued st =
     (case browser st of
        None \<Rightarrow> []
      | Some b \<Rightarrow> (case flowActionQueue (current_page b) of None \<Rightarrow> [] | Some q \<Rightarrow> q))"

text \<open>The payload (\<open>data\<close>) of an action.\<close>

definition payload :: "json \<Rightarrow> json option" where
  "payload action = lookup_session action ''data''"

section \<open>Facts about the merge\<close>

lemma map_of_dict_set: "map_of (dict_set k v d) = (map_of d)(k \<mapsto> v)"
  by (induction d) auto

lemma new_actions_obj_is_dict: "\<exists>d'. new_actions_obj e k acts = JDict d'"
  by (simp add: new_actions_obj_def split: json.split option.split)

lemma lookup_new_same:
  "lookup_session (new_actions_obj e k acts) k =
     Some (JList ((case lookup_session e k of Some (JList cur) \<Rightarrow> cur | _ \<Rightarrow> []) @ acts))"
  by (cases e)
     (simp_all add: new_actions_obj_def lookup_session_def map_of_dict_set
        split: option.split json.split)

lemma lookup_new_other_dict:
  "k' \<noteq> k \<Longrightarrow> lookup_session (new_actions_obj (JDict d) k acts) k' = map_of d k'"
  by (simp add: new_actions_obj_def lookup_session_def map_of_dict_set
        split: option.split json.split)

lemma lookup_new_other:
  "k' \<noteq> k \<Longrightarrow> k' \<noteq> ''legacy_default'' \<Longrightarrow>
     lookup_session (new_actions_obj e k acts) k' = lookup_session e k'"
  by (cases e)
     (simp_all add: new_actions_obj_def lookup_session_def map_of_dict_set
        split: option.split json.split)

lemma lookup_new_base:
  "k \<noteq> k1 \<Longrightarrow> k \<noteq> k2 \<Longrightarrow>
     lookup_session (new_actions_obj e k1 A) k = lookup_session (new_actions_obj e k2 B) k"
  by (cases e)
     (auto simp: new_actions_obj_def lookup_session_def map_of_dict_set
        split: option.split json.split)

lemma lookup_new_twice_other:
  assumes "k \<noteq> k2"
  shows "lookup_session (new_actions_obj (new_actions_obj e k1 A) k2 B) k
       = lookup_session (new_actions_obj e k1 A) k"
proof -
  obtain d1 where d1: "new_actions_obj e k1 A = JDict d1"
    using new_actions_obj_is_dict by blast
  have "lookup_session (JDict d1) k = map_of d1 k"
    by (simp add: lookup_session_def)
  then show ?thesis
    using assms by (simp add: d1 lookup_new_other_dict)
qed

lemma nao_commute:
  assumes "k1 \<noteq> k2" "k1 \<noteq> ''legacy_default''" "k2 \<noteq> ''legacy_default''"
  shows "lookup_session (new_actions_obj (new_actions_obj e k1 A) k2 B) k
       = lookup_session (new_actions_obj (new_actions_obj e k2 B) k1 A) k"
proof -
  consider (a) "k = k1" | (b) "k = k2" | (c) "k \<noteq> k1" "k \<noteq> k2" by blast
  then show ?thesis
  proof cases
    case a
    have "lookup_session (new_actions_obj (new_actions_obj e k1 A) k2 B) k1
            = lookup_session (new_actions_obj e k1 A) k1"
      using assms(1) by (rule lookup_new_twice_other)
    moreover have "lookup_session (new_actions_obj e k2 B) k1 = lookup_session e k1"
      using assms by (simp add: lookup_new_other)
    ultimately show ?thesis
      by (simp add: a lookup_new_same)
  next
    case b
    have "lookup_session (new_actions_obj (new_actions_obj e k2 B) k1 A) k2
            = lookup_session (new_actions_obj e k2 B) k2"
      using assms(1) by (intro lookup_new_twice_other) simp
    moreover have "lookup_session (new_actions_obj e k1 A) k2 = lookup_session e k2"
      using assms by (simp add: lookup_new_other)
    ultimately show ?thesis
      by (simp add: b lookup_new_same)
  next
    case c
    then show ?thesis
      by (simp add: lookup_new_twice_other lookup_new_base[of k k1 k2 e A B])
  qed
qed

lemma nao_commute_fresh:
  assumes "k1 \<noteq> k2"
  shows "lookup_session (new_actions_obj (JDict [(k1, JList A)]) k2 B) k
       = lookup_session (new_actions_obj (JDict [(k2, JList B)]) k1 A) k"
  using assms
  by (simp add: new_actions_obj_def lookup_session_def)

lemma update_unreachable:
  "\<not> PG_CONN db \<Longrightarrow> \<not> reachable db \<Longrightarrow> update_page_actions db url a sid = (False, db)"
  by (simp add: update_page_actions_def ensure_connection_def connect_to_db_def)

lemma update_connects:
  "reachable db \<Longrightarrow> \<not> PG_CONN db \<Longrightarrow>
     update_page_actions db url a sid = update_page_actions (db\<lparr>PG_CONN := True\<rparr>) url a sid"
  by (simp add: update_page_actions_def ensure_connection_def connect_to_db_def)

lemma update_skips:
  assumes "PG_CONN db" and "\<not> (\<exists>acts. a = JList acts \<and> acts \<noteq> [] \<and> url \<noteq> [])"
  shows "update_page_actions db url a sid = (True, db)"
  using assms
  by (cases a) (auto simp: update_page_actions_def ensure_connection_def)

lemma update_writes:
  assumes "PG_CONN db" and "url \<noteq> []" and "acts \<noteq> []"
  shows "\<exists>r'. update_page_actions db url (JList acts) sid
            = (True, db\<lparr>page_embeddings := (page_embeddings db)(url \<mapsto> r')\<rparr>)
          \<and> page_actions r' =
              new_actions_obj (case page_embeddings db url of Some r \<Rightarrow> page_actions r | None \<Rightarrow> JNull)
                (session_key_of sid) acts"
proof (cases "page_embeddings db url")
  case None
  have "new_actions_obj JNull (session_key_of sid) acts = JDict [(session_key_of sid, JList acts)]"
    by (simp add: new_actions_obj_def)
  then show ?thesis
    using assms None
    by (intro exI[of _ "\<lparr>content = None, content_type = ''html'', title = [],
          is_alert = False, session_id = sid,
          page_actions = JDict [(session_key_of sid, JList acts)]\<rparr>"])
       (simp add: update_page_actions_def ensure_connection_def)
next
  case (Some r)
  show ?thesis
    using assms Some
    by (intro exI[of _ "r\<lparr>session_id := coalesce sid (session_id r),
          page_actions := new_actions_obj (page_actions r) (session_key_of sid) acts\<rparr>"])
       (simp add: update_page_actions_def ensure_connection_def)
qed

lemma update_keeps_conn:
  "PG_CONN db \<Longrightarrow> PG_CONN (snd (update_page_actions db url a sid))"
  by (auto simp: update_page_actions_def ensure_connection_def
        split: json.split option.split)

lemma stored_after_two:
  assumes "PG_CONN db" and "url \<noteq> []" and "A \<noteq> []" and "B \<noteq> []"
  shows "stored_actions (snd (update_page_actions (snd (update_page_actions db url (JList A) s1))
            url (JList B) s2)) u k
       = (if u = url then
            lookup_session (new_actions_obj (new_actions_obj
              (case page_embeddings db url of Some r \<Rightarrow> page_actions r | None \<Rightarrow> JNull)
              (session_key_of s1) A) (session_key_of s2) B) k
          else stored_actions db u k)"
proof -
  obtain r1 where r1: "update_page_actions db url (JList A) s1
            = (True, db\<lparr>page_embeddings := (page_embeddings db)(url \<mapsto> r1)\<rparr>)"
     and p1: "page_actions r1 =
              new_actions_obj (case page_embeddings db url of Some r \<Rightarrow> page_actions r | None \<Rightarrow> JNull)
                (session_key_of s1) A"
    using update_writes[OF assms(1,2,3)] by blast
  let ?db1 = "db\<lparr>page_embeddings := (page_embeddings db)(url \<mapsto> r1)\<rparr>"
  have c1: "PG_CONN ?db1" using assms(1) by simp
  obtain r2 where r2: "update_page_actions ?db1 url (JList B) s2
            = (True, ?db1\<lparr>page_embeddings := (page_embeddings ?db1)(url \<mapsto> r2)\<rparr>)"
     and p2: "page_actions r2 =
              new_actions_obj (case page_embeddings ?db1 url of Some r \<Rightarrow> page_actions r | None \<Rightarrow> JNull)
                (session_key_of s2) B"
    using update_writes[OF c1 assms(2,4)] by blast
  show ?thesis
    by (simp add: r1 r2 p1 p2 stored_actions_def)
qed

lemma commute_connected:
  assumes "PG_CONN db"
    and "session_key_of s1 \<noteq> session_key_of s2"
    and "session_key_of s1 \<noteq> ''legacy_default''"
    and "session_key_of s2 \<noteq> ''legacy_default''"
  shows "stored_actions (snd (update_page_actions (snd (update_page_actions db url a s1)) url b s2)) u k
       = stored_actions (snd (update_page_actions (snd (update_page_actions db url b s2)) url a s1)) u k"
proof (cases "\<exists>acts. a = JList acts \<and> acts \<noteq> [] \<and> url \<noteq> []")
  case False
  have "update_page_actions db url a s1 = (True, db)"
    using assms(1) False by (rule update_skips)
  moreover have "PG_CONN (snd (update_page_actions db url b s2))"
    using assms(1) by (rule update_keeps_conn)
  then have "update_page_actions (snd (update_page_actions db url b s2)) url a s1
      = (True, snd (update_page_actions db url b s2))"
    using False by (rule update_skips)
  ultimately show ?thesis by simp
next
  case True
  then obtain A where A: "a = JList A" "A \<noteq> []" "url \<noteq> []" by blast
  show ?thesis
  proof (cases "\<exists>acts. b = JList acts \<and> acts \<noteq> []")
    case False
    then have nb: "\<not> (\<exists>acts. b = JList acts \<and> acts \<noteq> [] \<and> url \<noteq> [])" by blast
    have "update_page_actions db url b s2 = (True, db)"
      using assms(1) nb by (rule update_skips)
    moreover have "PG_CONN (snd (update_page_actions db url a s1))"
      using assms(1) by (rule update_keeps_conn)
    then have "update_page_actions (snd (update_page_actions db url a s1)) url b s2
      = (True, snd (update_page_actions db url a s1))"
      using nb by (rule update_skips)
    ultimately show ?thesis by simp
  next
    case True
    then obtain B where B: "b = JList B" "B \<noteq> []" by blast
    show ?thesis
      unfolding A(1) B(1)
      by (simp add: stored_after_two[OF assms(1) A(3) A(2) B(2)]
            stored_after_two[OF assms(1) A(3) B(2) A(2)]
            nao_commute[OF assms(2,3,4)])
  qed
qed

section \<open>Properties of the persistence merge\<close>

text \<open>
  C1. Whatever batch is merged for a URL under session key \<open>S\<close>, and whatever the
  session-partitioned store held before, the entry under every other key \<open>S' \<noteq> S\<close> reads
  back exactly as before: neither altered, nor removed, nor created.
\<close>

theorem update_page_actions_other_sessions_unchanged:
  assumes "page_embeddings db url = Some r"
    and "page_actions r = JDict d"
    and "k' \<noteq> session_key_of sid"
  shows "stored_actions (snd (update_page_actions db url actions sid)) url k' = map_of d k'"
  using assms
  by (auto simp: update_page_actions_def ensure_connection_def connect_to_db_def
      stored_actions_def new_actions_obj_def map_of_dict_set lookup_session_def
      split: json.splits option.splits bool.splits prod.splits if_splits)

theorem update_page_actions_other_sessions_unchanged_witness:
  "stored_actions
     (snd (update_page_actions
        \<lparr>PG_CONN = True, reachable = True,
         page_embeddings = [''u'' \<mapsto>
           \<lparr>content = None, content_type = ''html'', title = [], is_alert = False,
            session_id = None,
            page_actions = JDict [(''s1'', JList [JStr ''a'']), (''s2'', JList [JStr ''b''])]\<rparr>]\<rparr>
        ''u'' (JList [JStr ''c'']) (Some ''s1'')))
     ''u'' ''s2'' = Some (JList [JStr ''b''])"
  using update_page_actions_other_sessions_unchanged
    [of "\<lparr>PG_CONN = True, reachable = True,
         page_embeddings = [''u'' \<mapsto>
           \<lparr>content = None, content_type = ''html'', title = [], is_alert = False,
            session_id = None,
            page_actions = JDict [(''s1'', JList [JStr ''a'']), (''s2'', JList [JStr ''b''])]\<rparr>]\<rparr>"
        "''u''"
        "\<lparr>content = None, content_type = ''html'', title = [], is_alert = False,
            session_id = None,
            page_actions = JDict [(''s1'', JList [JStr ''a'']), (''s2'', JList [JStr ''b''])]\<rparr>"
        "[(''s1'', JList [JStr ''a'']), (''s2'', JList [JStr ''b''])]"
        "''s2''" "Some ''s1''" "JList [JStr ''c'']"]
  by (simp add: session_key_of_def)

text \<open>
  C8. A call with an empty batch writes nothing: the table is the same afterwards, for the
  URL of the call and for every other one. (The call may still open the connection.)
\<close>

theorem update_page_actions_empty_batch_no_write:
  "page_embeddings (snd (update_page_actions db url (JList []) sid)) = page_embeddings db"
  by (auto simp: update_page_actions_def ensure_connection_def connect_to_db_def
      split: prod.splits bool.splits if_splits)

theorem update_page_actions_empty_batch_no_write_witness:
  "page_embeddings (snd (update_page_actions
      \<lparr>PG_CONN = False, reachable = True, page_embeddings = Map.empty\<rparr>
      ''u'' (JList []) (Some ''s1''))) ''u'' = None"
  using update_page_actions_empty_batch_no_write
    [of "\<lparr>PG_CONN = False, reachable = True, page_embeddings = Map.empty\<rparr>" "''u''" "Some ''s1''"]
  by simp

text \<open>
  C7, as stated, fails: distinct session identifiers need not give distinct keys. A missing
  or empty identifier is stored under \<open>session_unknown\<close>, as the docstring says, so such
  a batch and a batch of the session called \<open>session_unknown\<close> land in one list, in the
  order of the calls.
\<close>

theorem merge_order_counterexample:
  "(None :: string option) \<noteq> Some ''session_unknown''
   \<and> stored_actions
        (snd (update_page_actions
           (snd (update_page_actions
              \<lparr>PG_CONN = True, reachable = True, page_embeddings = Map.empty\<rparr>
              ''u'' (JList [JStr ''a'']) None))
           ''u'' (JList [JStr ''b'']) (Some ''session_unknown'')))
        ''u'' ''session_unknown'' = Some (JList [JStr ''a'', JStr ''b''])
   \<and> stored_actions
        (snd (update_page_actions
           (snd (update_page_actions
              \<lparr>PG_CONN = True, reachable = True, page_embeddings = Map.empty\<rparr>
              ''u'' (JList [JStr ''b'']) (Some ''session_unknown'')))
           ''u'' (JList [JStr ''a'']) None))
        ''u'' ''session_unknown'' = Some (JList [JStr ''b'', JStr ''a''])
   \<and> Some [] \<noteq> Some ''session_unknown''
   \<and> stored_actions
        (snd (update_page_actions
           (snd (update_page_actions
              \<lparr>PG_CONN = True, reachable = True, page_embeddings = Map.empty\<rparr>
              ''u'' (JList [JStr ''a'']) (Some [])))
           ''u'' (JList [JStr ''b'']) (Some ''session_unknown'')))
        ''u'' ''session_unknown'' = Some (JList [JStr ''a'', JStr ''b''])
   \<and> stored_actions
        (snd (update_page_actions
           (snd (update_page_actions
              \<lparr>PG_CONN = True, reachable = True, page_embeddings = Map.empty\<rparr>
              ''u'' (JList [JStr ''b'']) (Some ''session_unknown'')))
           ''u'' (JList [JStr ''a'']) (Some [])))
        ''u'' ''session_unknown'' = Some (JList [JStr ''b'', JStr ''a''])"
  by (simp add: update_page_actions_def ensure_connection_def stored_actions_def
        new_actions_obj_def lookup_session_def session_key_of_def coalesce_def)

text \<open>
  C7, amended. When the two session keys (the identifier, or \<open>session_unknown\<close> for a
  missing or empty one) differ and neither is the reserved key \<open>legacy_default\<close>, merging
  the two batches in either order leaves the same per-session mapping: every URL reads
  back the same under every key.
\<close>

theorem merge_commutes_across_session_keys:
  assumes "session_key_of s1 \<noteq> session_key_of s2"
    and "session_key_of s1 \<noteq> ''legacy_default''"
    and "session_key_of s2 \<noteq> ''legacy_default''"
  shows "stored_actions (snd (update_page_actions (snd (update_page_actions db url a s1)) url b s2)) u k
       = stored_actions (snd (update_page_actions (snd (update_page_actions db url b s2)) url a s1)) u k"
proof -
  consider (conn) "PG_CONN db" | (dead) "\<not> PG_CONN db" "\<not> reachable db"
    | (lazy) "\<not> PG_CONN db" "reachable db" by blast
  then show ?thesis
  proof cases
    case conn
    then show ?thesis using assms by (rule commute_connected)
  next
    case dead
    then show ?thesis by (simp add: update_unreachable)
  next
    case lazy
    have c: "PG_CONN (db\<lparr>PG_CONN := True\<rparr>)" by simp
    show ?thesis
      using commute_connected[OF c assms, of url a b u k]
      by (simp add: update_connects[OF lazy(2,1)])
  qed
qed

theorem merge_commutes_across_session_keys_witness:
  "session_key_of (Some ''s1'') \<noteq> session_key_of (Some ''s2'')
   \<and> stored_actions
        (snd (update_page_actions
           (snd (update_page_actions
              \<lparr>PG_CONN = True, reachable = True, page_embeddings = Map.empty\<rparr>
              ''u'' (JList [JStr ''a'']) (Some ''s1'')))
           ''u'' (JList [JStr ''b'']) (Some ''s2'')))
        ''u'' ''s1''
     = stored_actions
        (snd (update_page_actions
           (snd (update_page_actions
              \<lparr>PG_CONN = True, reachable = True, page_embeddings = Map.empty\<rparr>
              ''u'' (JList [JStr ''b'']) (Some ''s2'')))
           ''u'' (JList [JStr ''a'']) (Some ''s1'')))
        ''u'' ''s1''
   \<and> stored_actions
        (snd (update_page_actions
           (snd (update_page_actions
              \<lparr>PG_CONN = True, reachable = True, page_embeddings = Map.empty\<rparr>
              ''u'' (JList [JStr ''a'']) (Some ''s1'')))
           ''u'' (JList [JStr ''b'']) (Some ''s2'')))
        ''u'' ''s1'' = Some (JList [JStr ''a''])"
proof -
  have h1: "session_key_of (Some ''s1'') \<noteq> session_key_of (Some ''s2'')"
    by (simp add: session_key_of_def)
  have h2: "session_key_of (Some ''s1'') \<noteq> ''legacy_default''"
    by (simp add: session_key_of_def)
  have h3: "session_key_of (Some ''s2'') \<noteq> ''legacy_default''"
    by (simp add: session_key_of_def)
  have ev: "stored_actions
        (snd (update_page_actions
           (snd (update_page_actions
              \<lparr>PG_CONN = True, reachable = True, page_embeddings = Map.empty\<rparr>
              ''u'' (JList [JStr ''a'']) (Some ''s1'')))
           ''u'' (JList [JStr ''b'']) (Some ''s2'')))
        ''u'' ''s1'' = Some (JList [JStr ''a''])"
    by (simp add: update_page_actions_def ensure_connection_def stored_actions_def
        new_actions_obj_def lookup_session_def session_key_of_def coalesce_def)
  show ?thesis
    using h1 ev
      merge_commutes_across_session_keys [OF h1 h2 h3,
        of "\<lparr>PG_CONN = True, reachable = True, page_embeddings = Map.empty\<rparr>"
           "''u''" "JList [JStr ''a'']" "JList [JStr ''b'']" "''u''" "''s1''"]
    by simp
qed

text \<open>
  C5. The scenario of the specification holds: a legacy list \<open>[a, b]\<close> merged with \<open>[c]\<close> under
  \<open>s1\<close> becomes \<open>{legacy_default: [a, b], s1: [c]}\<close>.
\<close>

lemma legacy_migration_scenario:
  "page_actions (the (page_embeddings
     (snd (update_page_actions
        \<lparr>PG_CONN = True, reachable = True,
         page_embeddings = [''u'' \<mapsto>
           \<lparr>content = None, content_type = ''html'', title = [], is_alert = False,
            session_id = None,
            page_actions = JList [a, b]\<rparr>]\<rparr>
        ''u'' (JList [c]) (Some ''s1''))) ''u''))
   = JDict [(''legacy_default'', JList [a, b]), (''s1'', JList [c])]"
  by (simp add: update_page_actions_def ensure_connection_def
        new_actions_obj_def session_key_of_def coalesce_def)

text \<open>
  C5, where the code departs from it. The dict literal \<open>{"legacy_default": existing,
  session_key: actions}\<close> has one key twice when the session is itself called
  \<open>legacy_default\<close>, and the later value wins: the legacy entries \<open>a\<close> and \<open>b\<close> are gone.
\<close>

theorem legacy_collision_drops_entries:
  "stored_actions
     (snd (update_page_actions
        \<lparr>PG_CONN = True, reachable = True,
         page_embeddings = [''u'' \<mapsto>
           \<lparr>content = None, content_type = ''html'', title = [], is_alert = False,
            session_id = None,
            page_actions = JList [JStr ''a'', JStr ''b'']\<rparr>]\<rparr>
        ''u'' (JList [JStr ''c'']) (Some ''legacy_default'')))
     ''u'' ''legacy_default'' = Some (JList [JStr ''c''])"
  by (simp add: update_page_actions_def ensure_connection_def stored_actions_def
        new_actions_obj_def lookup_session_def session_key_of_def coalesce_def)

lemma stored_as_lookup:
  "stored_actions db url k =
     lookup_session (case page_embeddings db url of Some r \<Rightarrow> page_actions r | None \<Rightarrow> JNull) k"
  by (simp add: stored_actions_def lookup_session_def split: option.split)

lemma stored_after_update_connected:
  assumes "PG_CONN db" and "url \<noteq> []" and "acts \<noteq> []"
  shows "stored_actions (snd (update_page_actions db url (JList acts) sid)) url (session_key_of sid)
       = Some (JList ((case stored_actions db url (session_key_of sid) of
                         Some (JList cur) \<Rightarrow> cur | _ \<Rightarrow> []) @ acts))"
proof -
  obtain r' where r: "update_page_actions db url (JList acts) sid
            = (True, db\<lparr>page_embeddings := (page_embeddings db)(url \<mapsto> r')\<rparr>)"
     and p: "page_actions r' =
              new_actions_obj (case page_embeddings db url of Some r \<Rightarrow> page_actions r | None \<Rightarrow> JNull)
                (session_key_of sid) acts"
    using update_writes[OF assms] by blast
  have "stored_actions (snd (update_page_actions db url (JList acts) sid)) url (session_key_of sid)
      = lookup_session (page_actions r') (session_key_of sid)"
    by (simp add: r stored_actions_def)
  then show ?thesis
    by (simp add: p lookup_new_same stored_as_lookup[symmetric])
qed

lemma stored_after_update:
  assumes "PG_CONN db \<or> reachable db" and "url \<noteq> []" and "acts \<noteq> []"
  shows "stored_actions (snd (update_page_actions db url (JList acts) sid)) url (session_key_of sid)
       = Some (JList ((case stored_actions db url (session_key_of sid) of
                         Some (JList cur) \<Rightarrow> cur | _ \<Rightarrow> []) @ acts))"
proof (cases "PG_CONN db")
  case True
  then show ?thesis using assms(2,3) by (rule stored_after_update_connected)
next
  case False
  then have re: "reachable db" using assms(1) by simp
  have c: "PG_CONN (db\<lparr>PG_CONN := True\<rparr>)" by simp
  have "stored_actions (db\<lparr>PG_CONN := True\<rparr>) url (session_key_of sid)
      = stored_actions db url (session_key_of sid)"
    by (simp add: stored_actions_def)
  then show ?thesis
    using stored_after_update_connected[OF c assms(2,3), of sid]
    by (simp add: update_connects[OF re False])
qed

lemma update_connected_after:
  "PG_CONN db \<or> reachable db \<Longrightarrow> PG_CONN (snd (update_page_actions db url a sid))"
  by (cases "PG_CONN db") (simp_all add: update_keeps_conn update_connects)

lemma session_key_none: "session_key_of None = ''session_unknown''"
  by (simp add: session_key_of_def)

lemma process_new_actions_once:
  assumes "acts \<noteq> []" and "url \<noteq> []"
    and "PG_CONN (vector_db st) \<or> reachable (vector_db st)"
  shows "page_action_logs (process_new_actions st url acts) url
           = Some ((case page_action_logs st url of None \<Rightarrow> [] | Some b \<Rightarrow> b) @ acts)
       \<and> stored_actions (vector_db (process_new_actions st url acts)) url ''session_unknown''
           = Some (JList ((case stored_actions (vector_db st) url ''session_unknown'' of
                             Some (JList cur) \<Rightarrow> cur | _ \<Rightarrow> [])
                          @ (case page_action_logs st url of None \<Rightarrow> [] | Some b \<Rightarrow> b) @ acts))
       \<and> PG_CONN (vector_db (process_new_actions st url acts))"
proof -
  let ?buf = "(case page_action_logs st url of None \<Rightarrow> [] | Some b \<Rightarrow> b) @ acts"
  have ne: "?buf \<noteq> []" using assms(1) by simp
  show ?thesis
    using assms(1) stored_after_update[OF assms(3,2) ne, of None]
      update_connected_after[OF assms(3), of url "JList ?buf" None]
    by (simp add: process_new_actions_def session_key_none Let_def)
qed

section \<open>Properties of draining and routing\<close>

text \<open>
  The value of the drain function never leaves the page: whatever the state,
  \<open>drain_action_queue\<close> returns the empty list.
\<close>

lemma drain_action_queue_returns_empty: "fst (drain_action_queue st) = []"
  by (simp add: drain_action_queue_def execute_script_def drain_script_def
        split: option.split prod.split)

text \<open>
  C6, where the code departs from it. The docstring of \<open>drain_action_queue\<close> says it
  returns the collected actions and clears the queue. The function inside the script does
  compute the queue \<open>[a, b]\<close>, but the script has no \<open>return\<close> of its own, so
  \<open>execute_script\<close> yields \<open>None\<close> and \<open>None or []\<close> is \<open>[]\<close>: on a live browser whose page
  has \<open>[a, b]\<close> queued, the first drain already returns the empty batch, and the queue is
  empty afterwards. The two actions are lost.
\<close>

theorem drain_action_queue_loses_the_queue:
  "fst (drain_iife
      \<lparr>page_url = ''u'', page_title = [], page_source = [],
       flowListenersInstalled = True, flowActionQueue = Some [JStr ''a'', JStr ''b''],
       flowActionCounter = 2\<rparr>) = [JStr ''a'', JStr ''b'']
   \<and> fst (drain_script
      \<lparr>page_url = ''u'', page_title = [], page_source = [],
       flowListenersInstalled = True, flowActionQueue = Some [JStr ''a'', JStr ''b''],
       flowActionCounter = 2\<rparr>) = None
   \<and> queued
      \<lparr>browser = Some \<lparr>alive = True, window_handles = [''w''], current_window_handle = ''w'',
          pages = (\<lambda>h. \<lparr>page_url = ''u'', page_title = [], page_source = [],
             flowListenersInstalled = True, flowActionQueue = Some [JStr ''a'', JStr ''b''],
             flowActionCounter = 2\<rparr>),
          alert = None, closed_dialogs = []\<rparr>,
       stop_capturing = False, all_windows = {}, flows = Map.empty,
       page_action_logs = Map.empty,
       vector_db = \<lparr>PG_CONN = True, reachable = True, page_embeddings = Map.empty\<rparr>,
       graph_db = (), current_session = None\<rparr> = [JStr ''a'', JStr ''b'']
   \<and> fst (drain_action_queue
      \<lparr>browser = Some \<lparr>alive = True, window_handles = [''w''], current_window_handle = ''w'',
          pages = (\<lambda>h. \<lparr>page_url = ''u'', page_title = [], page_source = [],
             flowListenersInstalled = True, flowActionQueue = Some [JStr ''a'', JStr ''b''],
             flowActionCounter = 2\<rparr>),
          alert = None, closed_dialogs = []\<rparr>,
       stop_capturing = False, all_windows = {}, flows = Map.empty,
       page_action_logs = Map.empty,
       vector_db = \<lparr>PG_CONN = True, reachable = True, page_embeddings = Map.empty\<rparr>,
       graph_db = (), current_session = None\<rparr>) = []
   \<and> queued (snd (drain_action_queue
      \<lparr>browser = Some \<lparr>alive = True, window_handles = [''w''], current_window_handle = ''w'',
          pages = (\<lambda>h. \<lparr>page_url = ''u'', page_title = [], page_source = [],
             flowListenersInstalled = True, flowActionQueue = Some [JStr ''a'', JStr ''b''],
             flowActionCounter = 2\<rparr>),
          alert = None, closed_dialogs = []\<rparr>,
       stop_capturing = False, all_windows = {}, flows = Map.empty,
       page_action_logs = Map.empty,
       vector_db = \<lparr>PG_CONN = True, reachable = True, page_embeddings = Map.empty\<rparr>,
       graph_db = (), current_session = None\<rparr>)) = []"
  by (simp add: drain_action_queue_def execute_script_def drain_script_def drain_iife_def
        is_browser_alive_def queued_def current_page_def)

text \<open>
  C2. Two successive non-empty batches \<open>B1\<close>, \<open>B2\<close> for a (non-empty) URL with a fresh
  buffer and nothing stored yet under the key, the database being connected or reachable:
  the buffer accumulates to \<open>B1 @ B2\<close>, each call hands the whole buffer to
  \<open>update_page_actions\<close>, which appends it under \<open>session_unknown\<close>, so the stored list
  is \<open>B1\<close> after the first call and \<open>B1 @ B1 @ B2\<close> after the second, which is not the
  concatenation of the drained batches.
\<close>

theorem process_new_actions_persists_earlier_batch_again:
  assumes "B1 \<noteq> []" and "B2 \<noteq> []" and "url \<noteq> []"
    and "PG_CONN (vector_db st) \<or> reachable (vector_db st)"
    and "page_action_logs st url = None"
    and "stored_actions (vector_db st) url ''session_unknown'' = None"
  shows "page_action_logs (process_new_actions (process_new_actions st url B1) url B2) url
           = Some (B1 @ B2)
       \<and> stored_actions (vector_db (process_new_actions st url B1)) url ''session_unknown''
           = Some (JList B1)
       \<and> stored_actions (vector_db (process_new_actions (process_new_actions st url B1) url B2))
             url ''session_unknown''
           = Some (JList (B1 @ B1 @ B2))
       \<and> B1 @ B1 @ B2 \<noteq> B1 @ B2"
proof -
  let ?st1 = "process_new_actions st url B1"
  have one: "page_action_logs ?st1 url = Some B1"
       "stored_actions (vector_db ?st1) url ''session_unknown'' = Some (JList B1)"
       "PG_CONN (vector_db ?st1)"
    using process_new_actions_once[OF assms(1,3,4)] assms(5,6) by simp_all
  have c: "PG_CONN (vector_db ?st1) \<or> reachable (vector_db ?st1)"
    using one(3) by simp
  have two: "page_action_logs (process_new_actions ?st1 url B2) url = Some (B1 @ B2)"
       "stored_actions (vector_db (process_new_actions ?st1 url B2)) url ''session_unknown''
          = Some (JList (B1 @ B1 @ B2))"
    using process_new_actions_once[OF assms(2,3) c] one(1,2) by simp_all
  have "length (B1 @ B1 @ B2) \<noteq> length (B1 @ B2)"
    using assms(1) by simp
  then have "B1 @ B1 @ B2 \<noteq> B1 @ B2"
    by metis
  with one(2) two show ?thesis by simp
qed

theorem process_new_actions_persists_earlier_batch_again_witness:
  "stored_actions
     (vector_db (process_new_actions (process_new_actions
        \<lparr>browser = None, stop_capturing = False, all_windows = {}, flows = Map.empty,
         page_action_logs = Map.empty,
         vector_db = \<lparr>PG_CONN = True, reachable = True, page_embeddings = Map.empty\<rparr>,
         graph_db = (), current_session = None\<rparr>
        ''u'' [JStr ''click@t1'']) ''u'' [JStr ''input@t2'']))
     ''u'' ''session_unknown''
   = Some (JList [JStr ''click@t1'', JStr ''click@t1'', JStr ''input@t2''])"
  using process_new_actions_persists_earlier_batch_again
    [of "[JStr ''click@t1'']" "[JStr ''input@t2'']" "''u''"
        "\<lparr>browser = None, stop_capturing = False, all_windows = {}, flows = Map.empty,
         page_action_logs = Map.empty,
         vector_db = \<lparr>PG_CONN = True, reachable = True, page_embeddings = Map.empty\<rparr>,
         graph_db = (), current_session = None\<rparr>"]
  by (simp add: stored_actions_def)

text \<open>
  C3, where the code departs from it. \<open>process_new_actions\<close> calls
  \<open>update_page_actions(tab_url, url_actions["actions"])\<close> with no session id, so with a
  recording session \<open>s1\<close> open nothing is stored under \<open>s1\<close>: the batch goes under
  \<open>session_unknown\<close>.
\<close>

theorem process_new_actions_ignores_current_session:
  "stored_actions
     (vector_db (process_new_actions
        \<lparr>browser = None, stop_capturing = False, all_windows = {}, flows = Map.empty,
         page_action_logs = Map.empty,
         vector_db = \<lparr>PG_CONN = True, reachable = True, page_embeddings = Map.empty\<rparr>,
         graph_db = (), current_session = Some ''s1''\<rparr>
        ''u'' [JStr ''a'']))
     ''u'' ''s1'' = None
   \<and> stored_actions
     (vector_db (process_new_actions
        \<lparr>browser = None, stop_capturing = False, all_windows = {}, flows = Map.empty,
         page_action_logs = Map.empty,
         vector_db = \<lparr>PG_CONN = True, reachable = True, page_embeddings = Map.empty\<rparr>,
         graph_db = (), current_session = Some ''s1''\<rparr>
        ''u'' [JStr ''a'']))
     ''u'' ''session_unknown'' = Some (JList [JStr ''a''])"
  by (simp add: process_new_actions_def update_page_actions_def ensure_connection_def
        stored_actions_def lookup_session_def session_key_of_def Let_def)

section \<open>Properties of the action capture script\<close>











text \<open>
  A \<open>click\<close> action is outside the masking as well: for a button, and for an \<open>input\<close> of
  type \<open>button\<close>, \<open>submit\<close> or \<open>reset\<close>, the script records the caption, which for an
  \<open>input\<close> is its \<open>value\<close>.
\<close>

lemma click_records_button_caption:
  "(case flowActionQueue (dispatch Click
          \<lparr>tagName = ''INPUT'', el_type = ''submit'', el_id = [],
           attr_name = Some ''token'', attr_placeholder = None, attr_autocomplete = None,
           attr_aria_label = None, attr_href = None, el_value = ''Send'',
           el_checked = False, innerText = [], selected_text = None,
           xpath = [], label_text = []\<rparr>
          None
          \<lparr>key = None, pageX = Some 3, pageY = Some 4, time_iso = []\<rparr>
          \<lparr>page_url = ''u'', page_title = [], page_source = [],
           flowListenersInstalled = True, flowActionQueue = Some [], flowActionCounter = 0\<rparr>) of
         Some [a] \<Rightarrow> payload a
       | _ \<Rightarrow> None)
      = Some (JDict [(''text'', JStr ''Send'')])"
  by code_simp



section \<open>Properties of the capture loop\<close>

text \<open>
  \<open>check_alerts\<close> never reports a dialog as handled: with a dialog open, asking for
  \<open>browser.current_url\<close> fails and the bare \<open>except\<close> returns \<open>False\<close>.
\<close>

lemma check_alerts_never_handles: "fst (check_alerts E now st) = False"
  by (simp add: check_alerts_def get_current_url_def split: option.split)

text \<open>
  C9, where the code departs from it. Without a dialog \<open>check_alerts\<close> returns \<open>False\<close>
  and changes nothing, as the claim says. With the dialog \<open>Sure?\<close> pending, the text is
  read, but the URL is asked for while the dialog is still open: the driver dismisses the
  dialog and raises, and the bare \<open>except\<close> returns \<open>False\<close>. Nothing is recorded (the
  graph store is not called, no flow and no row is written), the dialog is dismissed
  rather than accepted, and the cycle does not \<open>continue\<close>: it goes on to enumerate the
  tabs and sleeps its half second.
\<close>

theorem check_alerts_dismisses_and_records_nothing:
  "fst (check_alerts
      \<lparr>html_text = (\<lambda>s. s), extract_metadata = (\<lambda>s. []), hash = (\<lambda>s. 0),
       store_in_neo4j = (\<lambda>u m r s g. Suc g)\<rparr>
      7
      \<lparr>browser = Some \<lparr>alive = True, window_handles = [''w''], current_window_handle = ''w'',
          pages = (\<lambda>h. \<lparr>page_url = ''u'', page_title = [], page_source = ''<p>hi</p>'',
             flowListenersInstalled = True, flowActionQueue = Some [], flowActionCounter = 0\<rparr>),
          alert = Some ''Sure?'', closed_dialogs = []\<rparr>,
       stop_capturing = False, all_windows = {''w''}, flows = Map.empty,
       page_action_logs = Map.empty,
       vector_db = \<lparr>PG_CONN = True, reachable = True, page_embeddings = Map.empty\<rparr>,
       graph_db = (0::nat), current_session = None\<rparr>) = False
   \<and> (case snd (check_alerts
      \<lparr>html_text = (\<lambda>s. s), extract_metadata = (\<lambda>s. []), hash = (\<lambda>s. 0),
       store_in_neo4j = (\<lambda>u m r s g. Suc g)\<rparr>
      7
      \<lparr>browser = Some \<lparr>alive = True, window_handles = [''w''], current_window_handle = ''w'',
          pages = (\<lambda>h. \<lparr>page_url = ''u'', page_title = [], page_source = ''<p>hi</p>'',
             flowListenersInstalled = True, flowActionQueue = Some [], flowActionCounter = 0\<rparr>),
          alert = Some ''Sure?'', closed_dialogs = []\<rparr>,
       stop_capturing = False, all_windows = {''w''}, flows = Map.empty,
       page_action_logs = Map.empty,
       vector_db = \<lparr>PG_CONN = True, reachable = True, page_embeddings = Map.empty\<rparr>,
       graph_db = (0::nat), current_session = None\<rparr>) of st' \<Rightarrow>
        graph_db st' = 0
      \<and> flows st' = Map.empty
      \<and> page_embeddings (vector_db st') = Map.empty
      \<and> map_option alert (browser st') = Some None
      \<and> map_option closed_dialogs (browser st') = Some [(''Sure?'', Dismissed)])
   \<and> fst (capture_cycle
      \<lparr>html_text = (\<lambda>s. s), extract_metadata = (\<lambda>s. []), hash = (\<lambda>s. 0),
       store_in_neo4j = (\<lambda>u m r s g. Suc g)\<rparr>
      7
      \<lparr>browser = Some \<lparr>alive = True, window_handles = [''w''], current_window_handle = ''w'',
          pages = (\<lambda>h. \<lparr>page_url = ''u'', page_title = [], page_source = ''<p>hi</p>'',
             flowListenersInstalled = True, flowActionQueue = Some [], flowActionCounter = 0\<rparr>),
          alert = Some ''Sure?'', closed_dialogs = []\<rparr>,
       stop_capturing = False, all_windows = {''w''}, flows = Map.empty,
       page_action_logs = Map.empty,
       vector_db = \<lparr>PG_CONN = True, reachable = True, page_embeddings = Map.empty\<rparr>,
       graph_db = (0::nat), current_session = None\<rparr>
      \<lparr>last_url = ''u'', processed_urls = Map.empty\<rparr>) = Slept_half"
  by (simp add: check_alerts_def get_current_url_def dismiss_and_notify_def
        capture_cycle_def is_browser_alive_def capture_all_tabs_def capture_tab_def
        inject_action_listeners_def drain_action_queue_def execute_script_def
        install_script_def install_iife_def drain_script_def drain_iife_def current_page_def
        process_tab_def Let_def split: prod.split)

text \<open>
  C10, where the code departs from it. The context showing \<open>about:blank\<close> is left out of
  the results, as the claim says. But its queued action \<open>a\<close> is not routed anywhere: the
  drain returns the empty list (see C6), so \<open>if pending_actions:\<close> does not hold and
  \<open>process_new_actions\<close> is never called. After \<open>capture_all_tabs\<close> the queue of the page
  is empty, the buffer of \<open>about:blank\<close> does not exist and nothing is stored for it.
\<close>

theorem about_blank_actions_dropped:
  "(case capture_all_tabs
      \<lparr>browser = Some \<lparr>alive = True, window_handles = [''w1'', ''w2''],
          current_window_handle = ''w1'',
          pages = (\<lambda>h. if h = ''w2''
             then \<lparr>page_url = ''about:blank'', page_title = [], page_source = [],
                   flowListenersInstalled = True, flowActionQueue = Some [JStr ''a''],
                   flowActionCounter = 1\<rparr>
             else \<lparr>page_url = ''https://e.x/'', page_title = ''E'', page_source = ''<p>hi</p>'',
                   flowListenersInstalled = True, flowActionQueue = Some [],
                   flowActionCounter = 0\<rparr>),
          alert = None, closed_dialogs = []\<rparr>,
        stop_capturing = False, all_windows = {''w1'', ''w2''}, flows = Map.empty,
        page_action_logs = Map.empty,
        vector_db = \<lparr>PG_CONN = True, reachable = True, page_embeddings = Map.empty\<rparr>,
        graph_db = (), current_session = None\<rparr> of
      None \<Rightarrow> False
    | Some ((results, cur), st') \<Rightarrow>
        map td_url results = [''https://e.x/'']
      \<and> page_action_logs st' ''about:blank'' = None
      \<and> page_embeddings (vector_db st') ''about:blank'' = None
      \<and> map_option (\<lambda>b. flowActionQueue (pages b ''w2'')) (browser st') = Some (Some []))"
  by (simp add: capture_all_tabs_def capture_tab_def is_browser_alive_def
        inject_action_listeners_def drain_action_queue_def execute_script_def
        install_script_def install_iife_def drain_script_def drain_iife_def current_page_def
        Let_def split: prod.split)

end
